theory Spec2Isabelle
  imports Main "HOL-Library.Sublist"
begin

section \<open>The root bot of the simple bot-to-bot skill sample\<close>

text \<open>
  A shallow embedding of \<^verbatim>\<open>bots/root_bot.py\<close>. Every handler of \<^verbatim>\<open>RootBot\<close> is a
  function from the state of the turn to an outcome and the state it leaves behind: an
  exception raised half way through a handler keeps the effects made before it, as in
  Python. What the bot does to its collaborators (replies, state saves, calls of the
  skill client) is recorded in a trace, in the order of the calls.
\<close>

subsection \<open>Data model\<close>

text \<open>The activity types the bot tells apart; every other type is \<open>OtherActivity\<close>.\<close>

datatype activity_types = Message | ConversationUpdate | EndOfConversation | OtherActivity

record channel_account =
  account_id :: string

text \<open>
  The \<^verbatim>\<open>value\<close> of an activity is any Python value. The handler only tests its truth
  value and formats it with \<^verbatim>\<open>str\<close>; strings, integers and booleans stand for it.
\<close>

datatype py_value = PyStr string | PyInt int | PyBool bool

record activity =
  activity_type :: activity_types
  activity_text :: "string option"
  activity_code :: "string option"
  activity_value :: "py_value option"
  members_added :: "channel_account list"
  from_property :: channel_account
  recipient :: channel_account

text \<open>A \<^verbatim>\<open>BotFrameworkSkill\<close>: one entry of the skills configuration.\<close>

record bot_framework_skill =
  skill_id :: string
  app_id :: string
  skill_endpoint :: string

text \<open>
  Modelled from the spec: \<^verbatim>\<open>config.py\<close> (\<^verbatim>\<open>DefaultConfig\<close>, \<^verbatim>\<open>SkillConfiguration\<close>) is not
  among the sources. The configuration is the bot's app id, the mapping from a skill id to
  its descriptor (the dictionary \<^verbatim>\<open>SKILLS\<close>) and the host callback endpoint.
\<close>

record config =
  APP_ID :: string
  SKILLS :: "string \<rightharpoonup> bot_framework_skill"
  SKILL_HOST_ENDPOINT :: string

datatype error = TypeError | KeyError string

datatype outcome = Returned | Raised error

text \<open>One call made to a collaborator: the reply sink, the state store or the skill client.\<close>

datatype event =
    SendActivity string
  | SaveChanges bool
  | PostActivity string bot_framework_skill string activity

text \<open>
  The state of a conversation as the bot sees it: \<open>active_skill\<close> is the value of the
  property \<^verbatim>\<open>activeSkillProperty\<close> that the accessor reads and writes, \<open>storage\<close> the
  value the last \<^verbatim>\<open>save_changes\<close> wrote to the store, \<open>trace\<close> the calls made so far.
\<close>

record bot_state =
  active_skill :: "string option"
  storage :: "string option"
  trace :: "event list"

definition ACTIVE_SKILL_PROPERTY_NAME :: string where
  "ACTIVE_SKILL_PROPERTY_NAME = ''activeSkillProperty''"

definition TARGET_SKILL_ID :: string where
  "TARGET_SKILL_ID = ''EchoSkillBot''"

subsection \<open>Python primitives\<close>

text \<open>\<^verbatim>\<open>p in t\<close> on strings: \<open>p\<close> occurs in \<open>t\<close> as a contiguous run of characters.\<close>

fun py_in :: "string \<Rightarrow> string \<Rightarrow> bool" where
  "py_in p [] = (p = [])"
| "py_in p (c # cs) = (prefix p (c # cs) \<or> py_in p cs)"

text \<open>The truth value of an optional string: \<^verbatim>\<open>None\<close> and the empty string are false.\<close>

fun truthy_str :: "string option \<Rightarrow> bool" where
  "truthy_str None = False"
| "truthy_str (Some t) = (t \<noteq> [])"

fun truthy_value :: "py_value option \<Rightarrow> bool" where
  "truthy_value None = False"
| "truthy_value (Some (PyStr t)) = (t \<noteq> [])"
| "truthy_value (Some (PyInt i)) = (i \<noteq> 0)"
| "truthy_value (Some (PyBool b)) = b"

definition digit_char :: "nat \<Rightarrow> char" where
  "digit_char d = char_of (48 + d)"

fun str_nat :: "nat \<Rightarrow> string" where
  "str_nat n = (if n < 10 then [digit_char n] else str_nat (n div 10) @ [digit_char (n mod 10)])"

definition str_int :: "int \<Rightarrow> string" where
  "str_int i = (if i < 0 then CHR ''-'' # str_nat (nat (- i)) else str_nat (nat i))"

text \<open>\<^verbatim>\<open>str\<close> as an f-string applies it; an absent field is formatted as \<^verbatim>\<open>None\<close>.\<close>

fun str_opt :: "string option \<Rightarrow> string" where
  "str_opt None = ''None''"
| "str_opt (Some t) = t"

fun str_value :: "py_value \<Rightarrow> string" where
  "str_value (PyStr t) = t"
| "str_value (PyInt i) = str_int i"
| "str_value (PyBool b) = (if b then ''True'' else ''False'')"

subsection \<open>Collaborators\<close>

text \<open>
  The reply sink, the state store with its accessor and the skill transport are services of
  the SDK, outside the sources; each is modelled by the contract the spec gives it.
\<close>

text \<open>
  Modelled from the spec: the reply sink \<^verbatim>\<open>send_activity\<close>, which takes a text or a
  message activity made of a text. The reply is appended to the trace.
\<close>

definition send_activity :: "string \<Rightarrow> bot_state \<Rightarrow> outcome \<times> bot_state" where
  "send_activity msg s = (Returned, s\<lparr>trace := trace s @ [SendActivity msg]\<rparr>)"

text \<open>
  Modelled from the spec: \<^verbatim>\<open>save_changes(force)\<close> of the conversation state. It writes the
  current value of the property to the store and is appended to the trace.
\<close>

definition save_changes :: "bool \<Rightarrow> bot_state \<Rightarrow> outcome \<times> bot_state" where
  "save_changes force s =
     (Returned, s\<lparr>storage := active_skill s, trace := trace s @ [SaveChanges force]\<rparr>)"

text \<open>
  Modelled from the spec: the skill transport \<^verbatim>\<open>post_activity\<close>, called with the bot's app
  id, the skill, the host endpoint and the activity. The call is appended to the trace; what
  the skill answers is not part of the bot.
\<close>

definition post_activity ::
  "string \<Rightarrow> bot_framework_skill \<Rightarrow> string \<Rightarrow> activity \<Rightarrow> bot_state \<Rightarrow> outcome \<times> bot_state" where
  "post_activity from_bot_id to_skill callback a s =
     (Returned, s\<lparr>trace := trace s @ [PostActivity from_bot_id to_skill callback a]\<rparr>)"

text \<open>
  Modelled from the spec: \<^verbatim>\<open>set\<close> and \<^verbatim>\<open>delete\<close> of the state accessor of the property.
  Deleting clears the property; deleting an absent property is a no-op, not an error.
\<close>

definition property_set :: "string \<Rightarrow> bot_state \<Rightarrow> outcome \<times> bot_state" where
  "property_set v s = (Returned, s\<lparr>active_skill := Some v\<rparr>)"

definition property_delete :: "bot_state \<Rightarrow> outcome \<times> bot_state" where
  "property_delete s = (Returned, s\<lparr>active_skill := None\<rparr>)"

text \<open>Sequencing: the second step runs only when the first has returned.\<close>

definition and_then ::
  "(bot_state \<Rightarrow> outcome \<times> bot_state) \<Rightarrow> (bot_state \<Rightarrow> outcome \<times> bot_state) \<Rightarrow>
   bot_state \<Rightarrow> outcome \<times> bot_state" where
  "and_then f g s = (case f s of (Returned, s') \<Rightarrow> g s' | (Raised e, s') \<Rightarrow> (Raised e, s'))"

definition raise :: "error \<Rightarrow> bot_state \<Rightarrow> outcome \<times> bot_state" where
  "raise e s = (Raised e, s)"

definition skip :: "bot_state \<Rightarrow> outcome \<times> bot_state" where
  "skip s = (Returned, s)"

subsection \<open>The handlers of \<^verbatim>\<open>RootBot\<close>\<close>

definition connecting_reply :: string where
  "connecting_reply = ''Got it, connecting you to the skill...''"

definition help_reply :: string where
  \<open>help_reply = ''Me no nothin'. Say "skill" and I'll patch you through''\<close>

definition back_reply :: string where
  \<open>back_reply = ''Back in the root bot. Say "skill" and I'll patch you through''\<close>

definition welcome_reply :: string where
  "welcome_reply = ''Hello and welcome!''"

text \<open>\<^verbatim>\<open>__send_to_skill\<close>: save the state, then route the activity to the skill.\<close>

definition send_to_skill ::
  "config \<Rightarrow> activity \<Rightarrow> bot_framework_skill \<Rightarrow> bot_state \<Rightarrow> outcome \<times> bot_state" where
  "send_to_skill cfg a target_skill =
     and_then (save_changes True)
       (post_activity (APP_ID cfg) target_skill (SKILL_HOST_ENDPOINT cfg) a)"

text \<open>
  \<^verbatim>\<open>"skill" in text\<close> raises \<^verbatim>\<open>TypeError\<close> when the text is \<^verbatim>\<open>None\<close>. The subscript
  \<^verbatim>\<open>SKILLS[TARGET_SKILL_ID]\<close> is an argument of the call of \<^verbatim>\<open>__send_to_skill\<close>: it
  is evaluated after the reply and the \<^verbatim>\<open>set\<close>, and raises \<^verbatim>\<open>KeyError\<close> for a
  missing key.
\<close>

definition on_message_activity :: "config \<Rightarrow> activity \<Rightarrow> bot_state \<Rightarrow> outcome \<times> bot_state" where
  "on_message_activity cfg a =
     (case activity_text a of
        None \<Rightarrow> raise TypeError
      | Some t \<Rightarrow>
          if py_in ''skill'' t then
            and_then (send_activity connecting_reply)
              (and_then (property_set TARGET_SKILL_ID)
                 (case SKILLS cfg TARGET_SKILL_ID of
                    None \<Rightarrow> raise (KeyError TARGET_SKILL_ID)
                  | Some target_skill \<Rightarrow> send_to_skill cfg a target_skill))
          else send_activity help_reply)"

text \<open>
  The text of \<^verbatim>\<open>ActivityTypes.end_of_conversation\<close> in an f-string is the value of the
  enumeration member.
\<close>

definition end_of_conversation_str :: string where
  "end_of_conversation_str = ''endOfConversation''"

definition blank_line :: string where
  "blank_line = [CHR 0x0A, CHR 0x0A]"

definition eoc_activity_message :: "activity \<Rightarrow> string" where
  "eoc_activity_message a =
     (let m0 = ''Received '' @ end_of_conversation_str @ ''.'' @ blank_line @ ''Code: ''
                 @ str_opt (activity_code a);
          m1 = (if truthy_str (activity_text a)
                then m0 @ blank_line @ ''Text: '' @ str_opt (activity_text a) else m0);
          m2 = (if truthy_value (activity_value a)
                then m1 @ blank_line @ ''Value: '' @ str_value (the (activity_value a)) else m1)
      in m2)"

definition on_end_of_conversation_activity ::
  "activity \<Rightarrow> bot_state \<Rightarrow> outcome \<times> bot_state" where
  "on_end_of_conversation_activity a =
     and_then property_delete
       (and_then (send_activity (eoc_activity_message a))
          (and_then (send_activity back_reply) (save_changes True)))"

text \<open>The loop over the added members, in order.\<close>

fun on_members_added_activity ::
  "channel_account list \<Rightarrow> activity \<Rightarrow> bot_state \<Rightarrow> outcome \<times> bot_state" where
  "on_members_added_activity [] a = skip"
| "on_members_added_activity (member # rest) a =
     (if account_id member \<noteq> account_id (recipient a)
      then and_then (send_activity welcome_reply) (on_members_added_activity rest a)
      else on_members_added_activity rest a)"

text \<open>
  Modelled from the spec: \<^verbatim>\<open>ActivityHandler.on_turn\<close>, the dispatch of the SDK's base class
  on the activity type, is outside the sources. A message goes to the message handler, a
  conversation update that adds members to the members-added handler, an end of
  conversation to its handler; the handlers \<^verbatim>\<open>RootBot\<close> does not override do nothing.
\<close>

definition super_on_turn :: "config \<Rightarrow> activity \<Rightarrow> bot_state \<Rightarrow> outcome \<times> bot_state" where
  "super_on_turn cfg a =
     (case activity_type a of
        Message \<Rightarrow> on_message_activity cfg a
      | ConversationUpdate \<Rightarrow>
          (if members_added a \<noteq> [] then on_members_added_activity (members_added a) a else skip)
      | EndOfConversation \<Rightarrow> on_end_of_conversation_activity a
      | OtherActivity \<Rightarrow> skip)"

text \<open>
  \<^verbatim>\<open>RootBot.on_turn\<close>. \<^verbatim>\<open>if active_skill_id:\<close> tests the truth value of what the accessor
  returns; the subscript \<^verbatim>\<open>SKILLS[active_skill_id]\<close> raises \<^verbatim>\<open>KeyError\<close> for an
  id that is not configured.
\<close>

definition on_turn :: "config \<Rightarrow> activity \<Rightarrow> bot_state \<Rightarrow> outcome \<times> bot_state" where
  "on_turn cfg a s =
     (if activity_type a \<noteq> EndOfConversation \<and> truthy_str (active_skill s) then
        (case SKILLS cfg (the (active_skill s)) of
           None \<Rightarrow> raise (KeyError (the (active_skill s))) s
         | Some target_skill \<Rightarrow> send_to_skill cfg a target_skill s)
      else super_on_turn cfg a s)"

subsection \<open>Properties of a turn\<close>

fun is_post :: "event \<Rightarrow> bool" where
  "is_post (PostActivity from_bot_id to_skill callback a) = True"
| "is_post (SendActivity msg) = False"
| "is_post (SaveChanges force) = False"

text \<open>
  A check of the calls of one turn, in order: \<open>saved\<close> tells whether the state has been
  saved with \<^verbatim>\<open>force=True\<close> earlier in the turn, and a call of the skill client is
  accepted only then.
\<close>

fun save_precedes_post :: "bool \<Rightarrow> event list \<Rightarrow> bool" where
  "save_precedes_post saved [] = True"
| "save_precedes_post saved (SaveChanges force # es) = save_precedes_post (saved \<or> force) es"
| "save_precedes_post saved (PostActivity from_bot_id to_skill callback a # es) =
     (saved \<and> save_precedes_post saved es)"
| "save_precedes_post saved (SendActivity msg # es) = save_precedes_post saved es"

text \<open>The calls a turn has added to the trace of the state it started from.\<close>

definition turn_events :: "bot_state \<Rightarrow> bot_state \<Rightarrow> event list" where
  "turn_events s s' = drop (length (trace s)) (trace s')"

text \<open>
  The summary as the list of its lines, each separated from the next by an empty line: the
  heading and the code always, the text and the value when their truth value is true.
\<close>

definition eoc_lines :: "activity \<Rightarrow> string list" where
  "eoc_lines a =
     [''Received endOfConversation.'', ''Code: '' @ str_opt (activity_code a)]
     @ (if truthy_str (activity_text a) then [''Text: '' @ the (activity_text a)] else [])
     @ (if truthy_value (activity_value a)
        then [''Value: '' @ str_value (the (activity_value a))] else [])"

fun join_lines :: "string list \<Rightarrow> string" where
  "join_lines [] = []"
| "join_lines [l] = l"
| "join_lines (l # ls) = l @ [CHR 0x0A, CHR 0x0A] @ join_lines ls"

text \<open>
  The state machine of the spec, in the spec's words: Idle to SkillActive on a keyword
  match in a message while Idle, SkillActive to SkillActive on any activity other than an
  end of conversation, SkillActive to Idle on an end of conversation, and no other
  transition; an end of conversation while Idle stays Idle.
\<close>

datatype conversation = Idle | SkillActive

definition keyword_message :: "activity \<Rightarrow> bool" where
  "keyword_message a =
     (activity_type a = Message \<and>
      (case activity_text a of None \<Rightarrow> False | Some t \<Rightarrow> sublist ''skill'' t))"

fun spec_transition :: "conversation \<Rightarrow> activity \<Rightarrow> conversation" where
  "spec_transition Idle a = (if keyword_message a then SkillActive else Idle)"
| "spec_transition SkillActive a =
     (if activity_type a = EndOfConversation then Idle else SkillActive)"

definition conversation_of :: "bot_state \<Rightarrow> conversation" where
  "conversation_of s = (case active_skill s of None \<Rightarrow> Idle | Some sid \<Rightarrow> SkillActive)"

text \<open>
  The states of a conversation: it starts with the property absent and nothing stored;
  the bot handles any activity, and a later turn may read the property back from the store.
\<close>

definition initial_state :: bot_state where
  "initial_state = \<lparr>active_skill = None, storage = None, trace = []\<rparr>"

inductive reachable :: "config \<Rightarrow> bot_state \<Rightarrow> bool" for cfg :: config where
  start: "reachable cfg initial_state"
| turn: "reachable cfg s \<Longrightarrow> reachable cfg (snd (on_turn cfg a s))"
| reload: "reachable cfg s \<Longrightarrow> reachable cfg (s\<lparr>active_skill := storage s\<rparr>)"

subsection \<open>A configuration and activities to run the bot on\<close>

definition echo_skill :: bot_framework_skill where
  "echo_skill = \<lparr>skill_id = ''EchoSkillBot'', app_id = ''echo-app-id'',
                  skill_endpoint = ''http://localhost:39783/api/messages''\<rparr>"

definition sample_config :: config where
  "sample_config = \<lparr>APP_ID = ''root-app-id'', SKILLS = [''EchoSkillBot'' \<mapsto> echo_skill],
                     SKILL_HOST_ENDPOINT = ''http://localhost:3978/api/skills''\<rparr>"

definition sample_activity :: "activity_types \<Rightarrow> string option \<Rightarrow> activity" where
  "sample_activity ty txt =
     \<lparr>activity_type = ty, activity_text = txt, activity_code = None, activity_value = None,
      members_added = [], from_property = \<lparr>account_id = ''user''\<rparr>,
      recipient = \<lparr>account_id = ''bot''\<rparr>\<rparr>"

definition eoc_success_done :: activity where
  "eoc_success_done =
     (sample_activity EndOfConversation (Some ''done''))\<lparr>activity_code := Some ''success''\<rparr>"

definition skill_state :: bot_state where
  "skill_state = \<lparr>active_skill = Some ''EchoSkillBot'', storage = Some ''EchoSkillBot'',
                   trace = []\<rparr>"

section \<open>Verification\<close>

subsection \<open>Auxiliary facts\<close>

lemmas step_defs = send_activity_def save_changes_def post_activity_def property_set_def
  property_delete_def and_then_def raise_def skip_def send_to_skill_def

text \<open>The recursive test is the substring relation of the library.\<close>

lemma py_in_sublist: "py_in p t = sublist p t"
  by (induction t) (auto simp: sublist_Cons_right)

lemma skill_in_lets_try: "sublist ''skill'' ''let's try the skill''"
  unfolding py_in_sublist [symmetric] by simp

lemma members_added_run:
  "on_members_added_activity ms a s =
     (Returned, s\<lparr>trace := trace s @ map (\<lambda>m. SendActivity welcome_reply)
        (filter (\<lambda>m. account_id m \<noteq> account_id (recipient a)) ms)\<rparr>)"
  by (induction ms arbitrary: s) (simp_all add: step_defs)

lemma save_precedes_post_sends:
  "save_precedes_post saved (map (\<lambda>m. SendActivity msg) ms) = True"
  by (induction ms) simp_all

lemma join_lines_Cons:
  "ls \<noteq> [] \<Longrightarrow> join_lines (l # ls) = l @ [CHR 0x0A, CHR 0x0A] @ join_lines ls"
  by (cases ls) simp_all

lemma str_opt_truthy: "truthy_str x \<Longrightarrow> str_opt x = the x"
  by (cases x) simp_all

text \<open>A turn stores no skill id other than the target skill's.\<close>

lemma on_turn_skill_inv:
  assumes "active_skill s = None \<or> active_skill s = Some ''EchoSkillBot''"
      and "storage s = None \<or> storage s = Some ''EchoSkillBot''"
  shows "(active_skill (snd (on_turn cfg a s)) = None \<or>
          active_skill (snd (on_turn cfg a s)) = Some ''EchoSkillBot'') \<and>
         (storage (snd (on_turn cfg a s)) = None \<or>
          storage (snd (on_turn cfg a s)) = Some ''EchoSkillBot'')"
  using assms
  by (auto simp: step_defs on_turn_def super_on_turn_def on_message_activity_def
      on_end_of_conversation_activity_def members_added_run TARGET_SKILL_ID_def
      split: option.splits activity_types.splits)

subsection \<open>Routing of a turn\<close>

text \<open>
  C1: for an activity whose type is not EndOfConversation, when the active skill id is set
  (a non-empty id, which is what \<^verbatim>\<open>on_turn\<close> tests) and a skill is registered under it,
  the turn saves the state and posts that very activity to that skill, and does nothing
  else: no handler runs, no reply is sent, the property is unchanged. When the active skill
  id is absent, the turn is the handler of the activity's type.
\<close>

theorem on_turn_forwards_to_active_skill:
  assumes "activity_type a \<noteq> EndOfConversation"
  shows "(active_skill s = Some sid \<and> sid \<noteq> [] \<and> SKILLS cfg sid = Some sk \<longrightarrow>
            on_turn cfg a s =
              (Returned, s\<lparr>storage := Some sid,
                 trace := trace s @ [SaveChanges True,
                   PostActivity (APP_ID cfg) sk (SKILL_HOST_ENDPOINT cfg) a]\<rparr>)) \<and>
         (active_skill s = None \<longrightarrow>
            on_turn cfg a s =
              (case activity_type a of
                 Message \<Rightarrow> on_message_activity cfg a s
               | ConversationUpdate \<Rightarrow>
                   if members_added a \<noteq> [] then on_members_added_activity (members_added a) a s
                   else (Returned, s)
               | OtherActivity \<Rightarrow> (Returned, s)))"
  using assms
  by (simp add: on_turn_def super_on_turn_def step_defs split: activity_types.splits)

theorem on_turn_forwards_to_active_skill_witness:
  "activity_type (sample_activity Message (Some ''hello'')) \<noteq> EndOfConversation \<and>
   active_skill skill_state = Some ''EchoSkillBot'' \<and> ''EchoSkillBot'' \<noteq> [] \<and>
   SKILLS sample_config ''EchoSkillBot'' = Some echo_skill \<and>
   on_turn sample_config (sample_activity Message (Some ''hello'')) skill_state =
     (Returned, skill_state\<lparr>trace := [SaveChanges True,
        PostActivity ''root-app-id'' echo_skill ''http://localhost:3978/api/skills''
          (sample_activity Message (Some ''hello''))]\<rparr>) \<and>
   active_skill initial_state = None \<and>
   on_turn sample_config (sample_activity Message (Some ''hello'')) initial_state =
     (Returned, initial_state\<lparr>trace := [SendActivity help_reply]\<rparr>)"
  using on_turn_forwards_to_active_skill [of "sample_activity Message (Some ''hello'')"
      skill_state "''EchoSkillBot''" sample_config echo_skill]
    on_turn_forwards_to_active_skill [of "sample_activity Message (Some ''hello'')"
      initial_state "''EchoSkillBot''" sample_config echo_skill]
  by (simp add: sample_activity_def skill_state_def sample_config_def initial_state_def
      on_message_activity_def send_activity_def)

subsection \<open>The summary of an end of conversation\<close>

text \<open>
  C2, as stated, fails for the code field: an activity without a code still gets a
  \<^verbatim>\<open>Code:\<close> line in its summary, which reads \<^verbatim>\<open>Code: None\<close>.
\<close>

theorem eoc_summary_code_counterexample:
  "activity_code (sample_activity EndOfConversation None) = None \<and>
   eoc_activity_message (sample_activity EndOfConversation None) =
     ''Received endOfConversation.'' @ [CHR 0x0A, CHR 0x0A] @ ''Code: None''"
  by (simp add: sample_activity_def eoc_activity_message_def end_of_conversation_str_def
      blank_line_def)

text \<open>
  C2, amended: the summary is the heading, then a \<^verbatim>\<open>Code:\<close> line in every case (an absent
  code is written \<^verbatim>\<open>None\<close>), then a \<^verbatim>\<open>Text:\<close> line only when the text is present and
  not empty, then a \<^verbatim>\<open>Value:\<close> line only when the value is present and its truth value
  is true, the lines separated by empty lines; an absent text or value contributes no line.
\<close>

theorem eoc_summary_lines:
  "eoc_activity_message a = join_lines (eoc_lines a)"
  by (simp add: eoc_activity_message_def eoc_lines_def end_of_conversation_str_def
      blank_line_def Let_def join_lines_Cons str_opt_truthy)

theorem eoc_summary_lines_witness:
  "eoc_activity_message (sample_activity EndOfConversation (Some ''done'')) =
     join_lines [''Received endOfConversation.'', ''Code: None'', ''Text: done'']"
  using eoc_summary_lines [of "sample_activity EndOfConversation (Some ''done'')"]
  by (simp add: eoc_lines_def sample_activity_def)

subsection \<open>Messages while no skill is active\<close>

text \<open>
  A message whose text is present, handled while no skill is active and with the target
  skill in the skills configuration: if the text has \<^verbatim>\<open>skill\<close> as a substring
  (characters compared as they are), the bot replies
  \<^verbatim>\<open>Got it, connecting you to the skill...\<close>, sets the active skill id to
  \<^verbatim>\<open>EchoSkillBot\<close>, saves the state and calls the skill transport exactly once, with the
  activity; otherwise it sends the help reply only and the active skill id stays absent.
\<close>

lemma message_with_text_while_idle:
  assumes "activity_type a = Message" and "activity_text a = Some t"
      and "active_skill s = None" and "SKILLS cfg ''EchoSkillBot'' = Some sk"
  shows "on_turn cfg a s =
           (if sublist ''skill'' t then
              (Returned, s\<lparr>active_skill := Some ''EchoSkillBot'', storage := Some ''EchoSkillBot'',
                 trace := trace s @ [SendActivity ''Got it, connecting you to the skill...'',
                   SaveChanges True,
                   PostActivity (APP_ID cfg) sk (SKILL_HOST_ENDPOINT cfg) a]\<rparr>)
            else (Returned, s\<lparr>trace := trace s @ [SendActivity help_reply]\<rparr>))
         \<and> length (filter is_post (turn_events s (snd (on_turn cfg a s)))) =
             (if sublist ''skill'' t then 1 else 0)"
  using assms
  by (simp add: on_turn_def super_on_turn_def on_message_activity_def step_defs py_in_sublist
      TARGET_SKILL_ID_def connecting_reply_def turn_events_def)

lemma message_with_text_while_idle_example:
  "on_turn sample_config (sample_activity Message (Some ''let's try the skill'')) initial_state =
     (Returned, \<lparr>active_skill = Some ''EchoSkillBot'', storage = Some ''EchoSkillBot'',
        trace = [SendActivity ''Got it, connecting you to the skill...'', SaveChanges True,
          PostActivity ''root-app-id'' echo_skill ''http://localhost:3978/api/skills''
            (sample_activity Message (Some ''let's try the skill''))]\<rparr>)"
  using message_with_text_while_idle [of "sample_activity Message (Some ''let's try the skill'')"
      "''let's try the skill''" initial_state sample_config echo_skill] skill_in_lets_try
  by (simp add: sample_activity_def initial_state_def sample_config_def)

text \<open>
  C3: every message handled while no skill is active either contains the keyword and is
  forwarded, or gets the help reply and leaves the active skill id absent. The code misses
  this for a message without text: such a message does not contain the keyword, yet the
  turn raises \<^verbatim>\<open>TypeError\<close> at the test \<^verbatim>\<open>"skill" in text\<close>, before the branch that
  sends the help reply, so no reply is sent at all.
\<close>

theorem message_without_text_no_help_reply:
  "activity_type (sample_activity Message None) = Message \<and>
   activity_text (sample_activity Message None) = None \<and>
   active_skill initial_state = None \<and>
   \<not> keyword_message (sample_activity Message None) \<and>
   on_turn sample_config (sample_activity Message None) initial_state =
     (Raised TypeError, initial_state) \<and>
   on_turn sample_config (sample_activity Message None) initial_state \<noteq>
     (Returned, initial_state\<lparr>trace := trace initial_state @ [SendActivity help_reply]\<rparr>)"
  by (simp add: sample_activity_def initial_state_def keyword_message_def on_turn_def
      super_on_turn_def on_message_activity_def raise_def)

subsection \<open>Forwarding to the skill\<close>

text \<open>
  C4: \<^verbatim>\<open>__send_to_skill\<close> saves the conversation state with \<^verbatim>\<open>force=True\<close> and then
  calls the skill client, in this order and nothing else, so that the store holds the
  current value of the property when the skill is called. In every turn, whatever the
  activity and the state, the calls already made are kept and each call of the skill
  client made during the turn comes after a forced save made during the same turn.
\<close>

theorem send_to_skill_saves_first:
  "send_to_skill cfg a target_skill s =
     (Returned, s\<lparr>storage := active_skill s,
        trace := trace s @ [SaveChanges True,
          PostActivity (APP_ID cfg) target_skill (SKILL_HOST_ENDPOINT cfg) a]\<rparr>)
   \<and> take (length (trace s)) (trace (snd (on_turn cfg a s))) = trace s
   \<and> save_precedes_post False (turn_events s (snd (on_turn cfg a s)))"
  by (simp add: step_defs on_turn_def super_on_turn_def on_message_activity_def
      on_end_of_conversation_activity_def members_added_run save_precedes_post_sends
      turn_events_def
      split: option.splits activity_types.splits)

subsection \<open>The state machine of a conversation\<close>

text \<open>
  C5: a turn moves the conversation as the state machine of the spec says, whatever the
  activity, the configuration and the outcome of the turn: from Idle to SkillActive exactly
  on a message whose text contains the keyword, from SkillActive to Idle exactly on an end
  of conversation, and it stays where it is otherwise. The state is read from the property
  as the turn leaves it; the states are those in which the id is not the empty string,
  which a turn never stores. A turn that returns normally from a state whose store agrees
  with the property leaves them in agreement.
\<close>

theorem on_turn_state_machine:
  assumes "active_skill s \<noteq> Some []"
  shows "conversation_of (snd (on_turn cfg a s)) = spec_transition (conversation_of s) a \<and>
         active_skill (snd (on_turn cfg a s)) \<noteq> Some [] \<and>
         (storage s = active_skill s \<and> fst (on_turn cfg a s) = Returned \<longrightarrow>
            storage (snd (on_turn cfg a s)) = active_skill (snd (on_turn cfg a s)))"
  using assms
  by (cases "conversation_of s")
     (auto simp: on_turn_def super_on_turn_def on_message_activity_def step_defs
      on_end_of_conversation_activity_def members_added_run py_in_sublist
      conversation_of_def keyword_message_def TARGET_SKILL_ID_def
      split: option.splits activity_types.splits)

theorem on_turn_state_machine_witness:
  "active_skill initial_state \<noteq> Some [] \<and>
   conversation_of initial_state = Idle \<and>
   conversation_of (snd (on_turn sample_config
      (sample_activity Message (Some ''let's try the skill'')) initial_state)) = SkillActive \<and>
   storage initial_state = active_skill initial_state \<and>
   fst (on_turn sample_config
      (sample_activity Message (Some ''let's try the skill'')) initial_state) = Returned \<and>
   storage (snd (on_turn sample_config
      (sample_activity Message (Some ''let's try the skill'')) initial_state))
     = Some ''EchoSkillBot''"
  using on_turn_state_machine [of initial_state sample_config
      "sample_activity Message (Some ''let's try the skill'')"] skill_in_lets_try
  by (simp add: initial_state_def conversation_of_def keyword_message_def sample_activity_def
      sample_config_def on_turn_def super_on_turn_def on_message_activity_def step_defs
      py_in_sublist TARGET_SKILL_ID_def)

subsection \<open>End of conversation\<close>

text \<open>
  C6: a turn on an EndOfConversation activity returns normally and leaves the active skill
  id absent, in the property and in the store, whatever the state before, set or absent;
  a second turn on the same activity returns normally too and leaves the same values.
\<close>

theorem end_of_conversation_clears:
  assumes "activity_type a = EndOfConversation"
  shows "fst (on_turn cfg a s) = Returned \<and>
         active_skill (snd (on_turn cfg a s)) = None \<and>
         storage (snd (on_turn cfg a s)) = None \<and>
         fst (on_turn cfg a (snd (on_turn cfg a s))) = Returned \<and>
         active_skill (snd (on_turn cfg a (snd (on_turn cfg a s)))) =
           active_skill (snd (on_turn cfg a s)) \<and>
         storage (snd (on_turn cfg a (snd (on_turn cfg a s)))) =
           storage (snd (on_turn cfg a s))"
  using assms
  by (simp add: on_turn_def super_on_turn_def on_end_of_conversation_activity_def step_defs)

theorem end_of_conversation_clears_witness:
  "activity_type (sample_activity EndOfConversation None) = EndOfConversation \<and>
   active_skill skill_state \<noteq> None \<and>
   active_skill (snd (on_turn sample_config (sample_activity EndOfConversation None)
      skill_state)) = None \<and>
   fst (on_turn sample_config (sample_activity EndOfConversation None) initial_state)
      = Returned"
  using end_of_conversation_clears [of "sample_activity EndOfConversation None"
      sample_config skill_state]
    end_of_conversation_clears [of "sample_activity EndOfConversation None"
      sample_config initial_state]
  by (simp add: sample_activity_def skill_state_def)

text \<open>
  C7: a turn on an EndOfConversation activity with code \<^verbatim>\<open>success\<close> and text \<^verbatim>\<open>done\<close>
  sends the summary, which contains \<^verbatim>\<open>Code: success\<close> and \<^verbatim>\<open>Text: done\<close>, then the
  reply that starts \<^verbatim>\<open>Back in the root bot\<close>, then saves the state with
  \<^verbatim>\<open>force=True\<close>; the active skill id is absent afterwards, in the property and in the
  store.
\<close>

theorem end_of_conversation_success_done:
  assumes "activity_type a = EndOfConversation"
      and "activity_code a = Some ''success''" and "activity_text a = Some ''done''"
  shows \<open>on_turn cfg a s =
           (Returned, s\<lparr>active_skill := None, storage := None,
              trace := trace s @ [SendActivity (eoc_activity_message a),
                SendActivity ''Back in the root bot. Say "skill" and I'll patch you through'',
                SaveChanges True]\<rparr>) \<and>
         sublist ''Code: success'' (eoc_activity_message a) \<and>
         sublist ''Text: done'' (eoc_activity_message a)\<close>
proof -
  have run: \<open>on_turn cfg a s =
      (Returned, s\<lparr>active_skill := None, storage := None,
         trace := trace s @ [SendActivity (eoc_activity_message a),
           SendActivity ''Back in the root bot. Say "skill" and I'll patch you through'',
           SaveChanges True]\<rparr>)\<close>
    using assms(1)
    by (simp add: on_turn_def super_on_turn_def on_end_of_conversation_activity_def step_defs
        back_reply_def)
  define rest where "rest =
      (if truthy_value (activity_value a)
       then blank_line @ ''Value: '' @ str_value (the (activity_value a)) else [])"
  have msg: "eoc_activity_message a =
      (''Received endOfConversation.'' @ blank_line) @ ''Code: success'' @
        (blank_line @ ''Text: done'' @ rest)"
    using assms(2,3)
    by (simp add: eoc_activity_message_def end_of_conversation_str_def Let_def rest_def)
  have has_code: "sublist ''Code: success'' (eoc_activity_message a)"
    unfolding msg by (rule sublist_appendI)
  have "eoc_activity_message a =
      (''Received endOfConversation.'' @ blank_line @ ''Code: success'' @ blank_line)
        @ ''Text: done'' @ rest"
    by (simp add: msg)
  then have has_text: "sublist ''Text: done'' (eoc_activity_message a)"
    by (metis sublist_appendI)
  from run has_code has_text show ?thesis by simp
qed

theorem end_of_conversation_success_done_witness:
  \<open>activity_type eoc_success_done = EndOfConversation \<and>
   activity_code eoc_success_done = Some ''success'' \<and>
   activity_text eoc_success_done = Some ''done'' \<and>
   on_turn sample_config eoc_success_done skill_state =
     (Returned, \<lparr>active_skill = None, storage = None,
        trace = [SendActivity (''Received endOfConversation.'' @ [CHR 0x0A, CHR 0x0A]
                   @ ''Code: success'' @ [CHR 0x0A, CHR 0x0A] @ ''Text: done''),
          SendActivity ''Back in the root bot. Say "skill" and I'll patch you through'',
          SaveChanges True]\<rparr>)\<close>
  using end_of_conversation_success_done [of eoc_success_done sample_config skill_state]
  by (simp add: eoc_success_done_def sample_activity_def skill_state_def
      eoc_activity_message_def end_of_conversation_str_def blank_line_def)

subsection \<open>Members added\<close>

text \<open>
  C8: the members-added handler returns normally, changes nothing but the trace, and sends
  the welcome message \<^verbatim>\<open>Hello and welcome!\<close> once for each added member whose id differs
  from the id of the activity's recipient, and for no other member: the number of
  welcomes is the number of such members.
\<close>

theorem members_added_welcome:
  "on_members_added_activity ms a s =
     (Returned, s\<lparr>trace := trace s @
        replicate (length (filter (\<lambda>m. account_id m \<noteq> account_id (recipient a)) ms))
          (SendActivity ''Hello and welcome!'')\<rparr>)"
proof (induction ms arbitrary: s)
  case Nil
  show ?case by (simp add: skip_def)
next
  case (Cons member rest)
  show ?case
  proof (cases "account_id member = account_id (recipient a)")
    case True
    then show ?thesis by (simp add: Cons.IH)
  next
    case False
    then show ?thesis
      by (simp add: Cons.IH and_then_def send_activity_def welcome_reply_def)
  qed
qed

subsection \<open>A message without text\<close>

text \<open>
  C9: for a message activity whose text is absent, handled while no skill is active, the
  message handler raises \<^verbatim>\<open>TypeError\<close> and leaves the state as it was, so no help reply
  is sent; the turn as a whole fails in the same way.
\<close>

theorem message_without_text_raises:
  assumes "activity_type a = Message" and "activity_text a = None" and "active_skill s = None"
  shows "on_message_activity cfg a s = (Raised TypeError, s) \<and>
         on_turn cfg a s = (Raised TypeError, s)"
  using assms by (simp add: on_turn_def super_on_turn_def on_message_activity_def raise_def)

theorem message_without_text_raises_witness:
  "activity_type (sample_activity Message None) = Message \<and>
   activity_text (sample_activity Message None) = None \<and>
   active_skill initial_state = None \<and>
   on_message_activity sample_config (sample_activity Message None) initial_state
     = (Raised TypeError, initial_state) \<and>
   on_turn sample_config (sample_activity Message None) initial_state
     = (Raised TypeError, initial_state)"
  using message_without_text_raises [of "sample_activity Message None" initial_state sample_config]
  by (simp add: sample_activity_def initial_state_def)

subsection \<open>The only skill id ever stored\<close>

text \<open>
  C10: in every reachable state of a conversation the active skill id is absent or is
  \<^verbatim>\<open>EchoSkillBot\<close>, in the property and in the store.
\<close>

theorem reachable_skill_id:
  assumes "reachable cfg s"
  shows "(active_skill s = None \<or> active_skill s = Some ''EchoSkillBot'') \<and>
         (storage s = None \<or> storage s = Some ''EchoSkillBot'')"
  using assms
proof (induction rule: reachable.induct)
  case start
  show ?case by (simp add: initial_state_def)
next
  case (turn s a)
  then show ?case using on_turn_skill_inv [of s cfg a] by blast
next
  case (reload s)
  then show ?case by auto
qed

theorem reachable_skill_id_witness:
  "reachable sample_config (snd (on_turn sample_config
      (sample_activity Message (Some ''let's try the skill'')) initial_state)) \<and>
   active_skill (snd (on_turn sample_config
      (sample_activity Message (Some ''let's try the skill'')) initial_state))
     = Some ''EchoSkillBot''"
proof -
  let ?s = "snd (on_turn sample_config
      (sample_activity Message (Some ''let's try the skill'')) initial_state)"
  have r: "reachable sample_config ?s"
    by (rule reachable.turn) (rule reachable.start)
  have "active_skill ?s \<noteq> None"
    by (simp add: on_turn_def super_on_turn_def on_message_activity_def step_defs
        initial_state_def sample_activity_def sample_config_def TARGET_SKILL_ID_def)
  with reachable_skill_id [OF r] r show ?thesis by simp
qed

end
